theory Spec2Isabelle
  imports Main "HOL-Library.AList"
begin

section \<open>Data model\<close>

text \<open>
  The tables of \<^verbatim>\<open>maincapstoneproject.py\<close> that the request handlers read and write.
  A row of \<^verbatim>\<open>users\<close> is a \<open>User\<close>, a row of \<^verbatim>\<open>movies\<close> a \<open>Movie\<close>. The primary-key
  column \<^verbatim>\<open>id\<close> is written \<open>uid\<close> in \<open>User\<close> and \<open>mid\<close> in \<open>Movie\<close> (the name \<open>id\<close> is the
  identity function of HOL); every other column keeps its name. Python integers are
  \<open>int\<close>, Python strings are \<open>string\<close>.
\<close>

record User =
  uid :: int
  username :: string
  password :: string

record Movie =
  mid :: int
  title :: string
  description :: string
  user_id :: int

text \<open>
  The database: each table is the list of its rows in the order in which a table scan
  returns them. Handlers take the database and return it, together with their result;
  a handler that raises has committed nothing and returns it unchanged.
\<close>

record db =
  users :: "User list"
  movies :: "Movie list"

text \<open>
  The exceptions that leave a handler. \<open>HTTPException\<close> is
  \<^verbatim>\<open>HTTPException(status_code=..., detail=..., headers=...)\<close>, no headers being the empty
  list. \<open>MapperConfigurationError\<close> is the error of the SQLAlchemy library for mappers
  that cannot be configured (\<^verbatim>\<open>ArgumentError\<close> at the first use of a mapped class in a
  process, \<^verbatim>\<open>InvalidRequestError\<close> carrying it at every later use). \<open>OverflowError\<close> is
  raised by the SQLite driver for an integer outside 64 bits, \<open>NameError\<close> by Python for
  a name that is not defined, \<open>PasswordValueError\<close> by the password hasher.
\<close>

datatype exn =
  HTTPException (status_code: nat) (detail: string) (headers: "(string \<times> string) list")
| MapperConfigurationError
| OverflowError
| NameError
| PasswordValueError

definition http_exception :: "nat \<Rightarrow> string \<Rightarrow> exn" where
  "http_exception code msg = HTTPException code msg []"

text \<open>The JSON bodies the handlers return.\<close>

record MovieOut =
  out_id :: int
  out_title :: string
  out_description :: string

datatype message = Message string

definition movie_out :: "Movie \<Rightarrow> MovieOut" where
  "movie_out movie = \<lparr>out_id = mid movie, out_title = title movie,
     out_description = description movie\<rparr>"

section \<open>The mapped classes\<close>

text \<open>
  The \<^verbatim>\<open>relationship(...)\<close> declarations of the four mapped classes, in the order of the
  source: the class that declares it, the attribute, the target class, the
  \<^verbatim>\<open>backref\<close> and the \<^verbatim>\<open>remote_side\<close> (none is given anywhere).
\<close>

record relationship =
  rel_class :: string
  rel_attr :: string
  rel_target :: string
  rel_backref :: "string option"
  rel_remote_side :: "string option"

definition declared_relationships :: "relationship list" where
  "declared_relationships =
     [\<lparr>rel_class = ''Movie'', rel_attr = ''user'', rel_target = ''User'',
       rel_backref = Some ''movies'', rel_remote_side = None\<rparr>,
      \<lparr>rel_class = ''Rating'', rel_attr = ''movie'', rel_target = ''Movie'',
       rel_backref = Some ''ratings'', rel_remote_side = None\<rparr>,
      \<lparr>rel_class = ''Comment'', rel_attr = ''movie'', rel_target = ''Movie'',
       rel_backref = Some ''comments'', rel_remote_side = None\<rparr>,
      \<lparr>rel_class = ''Comment'', rel_attr = ''user'', rel_target = ''User'',
       rel_backref = Some ''comments'', rel_remote_side = None\<rparr>,
      \<lparr>rel_class = ''Comment'', rel_attr = ''parent'', rel_target = ''Comment'',
       rel_backref = Some ''replies'', rel_remote_side = None\<rparr>]"

text \<open>
  The library configures all mappers together, at the first \<^verbatim>\<open>db.query(C)\<close> or \<^verbatim>\<open>C(...)\<close>
  of any mapped class \<open>C\<close>. A relationship of a class to itself that has a backref and
  names no \<^verbatim>\<open>remote_side\<close> gives both directions the same one-to-many direction, and
  the configuration raises. \<open>mapped x\<close> is the use of a mapped class that would yield \<open>x\<close>.
\<close>

definition self_referential_without_remote_side :: "relationship \<Rightarrow> bool" where
  "self_referential_without_remote_side r =
     (rel_target r = rel_class r \<and> rel_backref r \<noteq> None \<and> rel_remote_side r = None)"

definition configure_mappers :: "relationship list \<Rightarrow> exn option" where
  "configure_mappers rels =
     (case find self_referential_without_remote_side rels of
        Some r \<Rightarrow> Some MapperConfigurationError
      | None \<Rightarrow> None)"

definition mapped :: "'a \<Rightarrow> exn + 'a" where
  "mapped x =
     (case configure_mappers declared_relationships of
        Some e \<Rightarrow> Inl e
      | None \<Rightarrow> Inr x)"

section \<open>Queries of the session\<close>

text \<open>An integer that the SQLite driver binds: it fits in 64 bits, signed.\<close>

definition in_int64 :: "int \<Rightarrow> bool" where
  "in_int64 i = (- (2 ^ 63) \<le> i \<and> i < 2 ^ 63)"

text \<open>
  \<^verbatim>\<open>db.query(User).filter_by(username=username).first()\<close>,
  \<^verbatim>\<open>db.query(User).get(user_id)\<close> and \<^verbatim>\<open>db.query(Movie).get(movie_id)\<close>:
  \<^verbatim>\<open>db.query\<close> uses the mapped class; then the first row that matches, \<open>None\<close> when
  there is none.
\<close>

definition user_by_username :: "string \<Rightarrow> db \<Rightarrow> exn + User option" where
  "user_by_username name d =
     (case mapped (users d) of
        Inl e \<Rightarrow> Inl e
      | Inr rows \<Rightarrow> Inr (find (\<lambda>u. username u = name) rows))"

definition user_get :: "int \<Rightarrow> db \<Rightarrow> exn + User option" where
  "user_get i d =
     (case mapped (users d) of
        Inl e \<Rightarrow> Inl e
      | Inr rows \<Rightarrow>
          if in_int64 i then Inr (find (\<lambda>u. uid u = i) rows) else Inl OverflowError)"

definition movie_get :: "int \<Rightarrow> db \<Rightarrow> exn + Movie option" where
  "movie_get i d =
     (case mapped (movies d) of
        Inl e \<Rightarrow> Inl e
      | Inr rows \<Rightarrow>
          if in_int64 i then Inr (find (\<lambda>m. mid m = i) rows) else Inl OverflowError)"

text \<open>
  The key of an inserted row. Both tables declare \<^verbatim>\<open>Column(Integer, primary_key=True)\<close>
  on the SQLite engine named by \<^verbatim>\<open>SQLALCHEMY_DATABASE_URL\<close>: the new key is one more
  than the largest key of the table, and 1 in an empty table.
\<close>

definition next_id :: "int list \<Rightarrow> int" where
  "next_id ids = (if ids = [] then 1 else Max (set ids) + 1)"

text \<open>
  \<^verbatim>\<open>.offset(skip)\<close> and \<^verbatim>\<open>.limit(limit)\<close> on the rows of a scan. The handler passes the
  request's integers on as they are; the engine reads a negative offset as zero and a
  negative limit as no limit.
\<close>

definition offset_rows :: "int \<Rightarrow> 'a list \<Rightarrow> 'a list" where
  "offset_rows n rows = drop (nat n) rows"

definition limit_rows :: "int \<Rightarrow> 'a list \<Rightarrow> 'a list" where
  "limit_rows n rows = (if n < 0 then rows else take (nat n) rows)"

section \<open>Movie handlers\<close>

text \<open>
  Each handler is the function of the source, called on its arguments and on the
  database. The handlers behind the authorization guard take the \<open>User\<close> that
  \<^verbatim>\<open>Depends(get_current_user)\<close> resolved as their argument \<open>user\<close>.
\<close>

definition get_movies :: "int option \<Rightarrow> int option \<Rightarrow> db \<Rightarrow> (exn + MovieOut list) \<times> db" where
  "get_movies skip limit d =
     (let skip' = (case skip of None \<Rightarrow> 0 | Some s \<Rightarrow> s);
          limit' = (case limit of None \<Rightarrow> 10 | Some l \<Rightarrow> l)
      in (case mapped (movies d) of
            Inl e \<Rightarrow> (Inl e, d)
          | Inr rows \<Rightarrow>
              if in_int64 skip' \<and> in_int64 limit'
              then (Inr (map movie_out (limit_rows limit' (offset_rows skip' rows))), d)
              else (Inl OverflowError, d)))"

text \<open>\<^verbatim>\<open>Movie(title=..., description=..., user_id=user.id)\<close> uses the mapped class.\<close>

definition create_movie :: "string \<Rightarrow> string \<Rightarrow> User \<Rightarrow> db \<Rightarrow> (exn + MovieOut) \<times> db" where
  "create_movie ttl descr user d =
     (case mapped (ttl, descr, uid user) of
        Inl e \<Rightarrow> (Inl e, d)
      | Inr (ttl', descr', owner) \<Rightarrow>
          (let movie = \<lparr>mid = next_id (map mid (movies d)), title = ttl',
                        description = descr', user_id = owner\<rparr>
           in (Inr (movie_out movie), d\<lparr>movies := movies d @ [movie]\<rparr>)))"

definition get_movie :: "int \<Rightarrow> db \<Rightarrow> (exn + MovieOut) \<times> db" where
  "get_movie movie_id d =
     (case movie_get movie_id d of
        Inl e \<Rightarrow> (Inl e, d)
      | Inr None \<Rightarrow> (Inl (http_exception 404 ''Movie not found''), d)
      | Inr (Some movie) \<Rightarrow> (Inr (movie_out movie), d))"

definition update_movie ::
  "int \<Rightarrow> string \<Rightarrow> string \<Rightarrow> User \<Rightarrow> db \<Rightarrow> (exn + MovieOut) \<times> db" where
  "update_movie movie_id ttl descr user d =
     (case movie_get movie_id d of
        Inl e \<Rightarrow> (Inl e, d)
      | Inr None \<Rightarrow> (Inl (http_exception 404 ''Movie not found or not authorized''), d)
      | Inr (Some movie) \<Rightarrow>
          if user_id movie \<noteq> uid user
          then (Inl (http_exception 404 ''Movie not found or not authorized''), d)
          else
            (let movie' = movie\<lparr>title := ttl, description := descr\<rparr>
             in (Inr (movie_out movie'),
                 d\<lparr>movies := map (\<lambda>m. if mid m = movie_id
                                         then m\<lparr>title := ttl, description := descr\<rparr>
                                         else m) (movies d)\<rparr>)))"

definition delete_movie ::
  "int \<Rightarrow> User \<Rightarrow> db \<Rightarrow> (exn + message) \<times> db" where
  "delete_movie movie_id user d =
     (case movie_get movie_id d of
        Inl e \<Rightarrow> (Inl e, d)
      | Inr None \<Rightarrow> (Inl (http_exception 404 ''Movie not found or not authorized''), d)
      | Inr (Some movie) \<Rightarrow>
          if user_id movie \<noteq> uid user
          then (Inl (http_exception 404 ''Movie not found or not authorized''), d)
          else (Inr (Message ''Movie deleted successfully''),
                d\<lparr>movies := filter (\<lambda>m. mid m \<noteq> movie_id) (movies d)\<rparr>))"

section \<open>Password hashing\<close>

text \<open>
  \<^verbatim>\<open>pwd_context = CryptContext(schemes=["bcrypt"], deprecated="auto")\<close> is an object of
  the passlib library; the source only calls its \<^verbatim>\<open>hash\<close> and \<^verbatim>\<open>verify\<close>. Both are
  parameters here, and both may raise (passlib refuses, for one, a password with a NUL
  character). \<^verbatim>\<open>hash\<close> draws a random salt: the salt is its first argument.
\<close>

record crypt_context =
  ctx_hash :: "string \<Rightarrow> string \<Rightarrow> exn + string"
  ctx_verify :: "string \<Rightarrow> string \<Rightarrow> exn + bool"

definition verify_password :: "crypt_context \<Rightarrow> string \<Rightarrow> string \<Rightarrow> exn + bool" where
  "verify_password pwd_context plain_password hashed_password =
     ctx_verify pwd_context plain_password hashed_password"

definition get_password_hash :: "crypt_context \<Rightarrow> string \<Rightarrow> string \<Rightarrow> exn + string" where
  "get_password_hash pwd_context salt pw = ctx_hash pwd_context salt pw"

section \<open>Token service\<close>

text \<open>
  The claims of a token are a dictionary from claim names to integers (the user id, and
  the expiry in seconds since the epoch). A token string either has the three parts of a
  signed token (the algorithm named in its header, its claims, its signature) or does
  not parse.
\<close>

type_synonym claims = "(string \<times> int) list"

datatype token =
  Compact (tok_alg: string) (tok_claims: claims) (tok_sig: string)
| Garbled string

datatype jwt_error = JWTError

text \<open>
  The module's settings: \<^verbatim>\<open>SECRET_KEY\<close> is read from the environment, the signing
  primitive \<open>jws_sign alg key claims\<close> is the MAC of the jose library, \<open>pwd_context\<close> the
  password hasher.
\<close>

record config =
  SECRET_KEY :: string
  jws_sign :: "string \<Rightarrow> string \<Rightarrow> claims \<Rightarrow> string"
  pwd_context :: crypt_context

definition ALGORITHM :: string where
  "ALGORITHM = ''HS256''"

definition ACCESS_TOKEN_EXPIRE_MINUTES :: int where
  "ACCESS_TOKEN_EXPIRE_MINUTES = 30"

text \<open>\<^verbatim>\<open>timedelta(minutes=n)\<close>, in seconds.\<close>

definition timedelta_minutes :: "int \<Rightarrow> int" where
  "timedelta_minutes n = n * 60"

text \<open>
  Modelled from the spec: \<^verbatim>\<open>jwt.encode\<close> and \<^verbatim>\<open>jwt.decode\<close> of the jose library, which
  the source imports and which is not part of it. The spec's Token Service: a token
  carries the claims and is signed with the server-held secret by a symmetric MAC;
  validation fails when the signature does not verify or when the expiry has passed,
  and the signature is verified before any claim is trusted. \<open>now\<close> is the clock at
  validation, in seconds. A token whose header names an algorithm outside
  \<open>algorithms\<close> fails as well. A token with no expiry claim has no expiry to pass.
\<close>

definition jwt_encode ::
  "(string \<Rightarrow> string \<Rightarrow> claims \<Rightarrow> string) \<Rightarrow> claims \<Rightarrow> string \<Rightarrow> string \<Rightarrow> token" where
  "jwt_encode sign cl key alg = Compact alg cl (sign alg key cl)"

fun jwt_decode ::
  "(string \<Rightarrow> string \<Rightarrow> claims \<Rightarrow> string) \<Rightarrow> int \<Rightarrow> token \<Rightarrow> string \<Rightarrow> string list
     \<Rightarrow> jwt_error + claims" where
  "jwt_decode sign now (Garbled s) key algorithms = Inl JWTError"
| "jwt_decode sign now (Compact alg cl sg) key algorithms =
     (if alg \<notin> set algorithms then Inl JWTError
      else if sg \<noteq> sign alg key cl then Inl JWTError
      else (case map_of cl ''exp'' of
              None \<Rightarrow> Inr cl
            | Some expiry \<Rightarrow> if expiry < now then Inl JWTError else Inr cl))"

text \<open>
  \<^verbatim>\<open>create_access_token(data, expires_delta=None)\<close>; \<open>now\<close> is \<^verbatim>\<open>datetime.utcnow()\<close>.
  \<^verbatim>\<open>if expires_delta:\<close> is false for \<^verbatim>\<open>None\<close> and for a zero \<^verbatim>\<open>timedelta\<close>.
\<close>

definition create_access_token :: "config \<Rightarrow> int \<Rightarrow> claims \<Rightarrow> int option \<Rightarrow> token" where
  "create_access_token cfg now data expires_delta =
     (let expire = (case expires_delta of
                      None \<Rightarrow> now + timedelta_minutes 15
                    | Some delta \<Rightarrow> if delta \<noteq> 0 then now + delta
                                    else now + timedelta_minutes 15);
          to_encode = AList.update ''exp'' expire data
      in jwt_encode (jws_sign cfg) to_encode (SECRET_KEY cfg) ALGORITHM)"

section \<open>Authorization guard\<close>

definition credentials_exception :: exn where
  "credentials_exception =
     HTTPException 401 ''Could not validate credentials'' [(''WWW-Authenticate'', ''Bearer'')]"

text \<open>
  \<^verbatim>\<open>get_current_user(token, db)\<close>: a token that does not decode, a token with no
  \<^verbatim>\<open>user_id\<close> and an id that no user has raise \<open>credentials_exception\<close>. The
  \<^verbatim>\<open>except\<close> clause catches \<^verbatim>\<open>JWTError\<close> only: an error of the query leaves the handler as
  it is.
\<close>

definition get_current_user :: "config \<Rightarrow> int \<Rightarrow> token \<Rightarrow> db \<Rightarrow> exn + User" where
  "get_current_user cfg now tok d =
     (case jwt_decode (jws_sign cfg) now tok (SECRET_KEY cfg) [ALGORITHM] of
        Inl JWTError \<Rightarrow> Inl credentials_exception
      | Inr payload \<Rightarrow>
          (case map_of payload ''user_id'' of
             None \<Rightarrow> Inl credentials_exception
           | Some user_id' \<Rightarrow>
               (case user_get user_id' d of
                  Inl e \<Rightarrow> Inl e
                | Inr None \<Rightarrow> Inl credentials_exception
                | Inr (Some user) \<Rightarrow> Inr user)))"

section \<open>Registration and login\<close>

record TokenResponse =
  access_token :: token
  token_type :: string

definition register_user ::
  "config \<Rightarrow> string \<Rightarrow> string \<Rightarrow> string \<Rightarrow> db \<Rightarrow> (exn + message) \<times> db" where
  "register_user cfg salt uname pw d =
     (case user_by_username uname d of
        Inl e \<Rightarrow> (Inl e, d)
      | Inr (Some user) \<Rightarrow> (Inl (http_exception 400 ''Username already taken''), d)
      | Inr None \<Rightarrow>
          (case get_password_hash (pwd_context cfg) salt pw of
             Inl e \<Rightarrow> (Inl e, d)
           | Inr hashed_password \<Rightarrow>
               (case mapped (uname, hashed_password) of
                  Inl e \<Rightarrow> (Inl e, d)
                | Inr (uname', hashed') \<Rightarrow>
                    (let user = \<lparr>uid = next_id (map uid (users d)), username = uname',
                                 password = hashed'\<rparr>
                     in (Inr (Message ''User created successfully''),
                         d\<lparr>users := users d @ [user]\<rparr>)))))"

definition login_for_access_token ::
  "config \<Rightarrow> int \<Rightarrow> string \<Rightarrow> string \<Rightarrow> db \<Rightarrow> (exn + TokenResponse) \<times> db" where
  "login_for_access_token cfg now uname pw d =
     (case user_by_username uname d of
        Inl e \<Rightarrow> (Inl e, d)
      | Inr None \<Rightarrow> (Inl (http_exception 401 ''Invalid credentials''), d)
      | Inr (Some user) \<Rightarrow>
          (case verify_password (pwd_context cfg) pw (password user) of
             Inl e \<Rightarrow> (Inl e, d)
           | Inr ok \<Rightarrow>
               if \<not> ok
               then (Inl (http_exception 401 ''Invalid credentials''), d)
               else
                 (let access_token_expires = timedelta_minutes ACCESS_TOKEN_EXPIRE_MINUTES;
                      tok = create_access_token cfg now [(''user_id'', uid user)]
                              (Some access_token_expires)
                  in (Inr \<lparr>access_token = tok, token_type = ''bearer''\<rparr>, d))))"

section \<open>Sequences of operations\<close>

text \<open>
  An operation is a call of one of the seven handlers. For a handler behind the guard
  the operation carries the bearer token and the time at which the guard validates it:
  \<^verbatim>\<open>Depends(get_current_user)\<close> runs first, and the handler runs on the user it returns.
  \<open>call\<close> is the outcome of the operation and the database after it; \<open>run_calls\<close> is the
  database after a sequence of operations.
\<close>

datatype request =
  Register string string string
| Login int string string
| ListMovies "int option" "int option"
| CreateMovie int token string string
| GetMovie int
| UpdateMovie int token int string string
| DeleteMovie int token int

definition outcome :: "(exn + 'a) \<times> db \<Rightarrow> (exn + unit) \<times> db" where
  "outcome r = (case fst r of Inl e \<Rightarrow> (Inl e, snd r) | Inr x \<Rightarrow> (Inr (), snd r))"

fun call :: "config \<Rightarrow> request \<Rightarrow> db \<Rightarrow> (exn + unit) \<times> db" where
  "call cfg (Register salt uname pw) d = outcome (register_user cfg salt uname pw d)"
| "call cfg (Login now uname pw) d = outcome (login_for_access_token cfg now uname pw d)"
| "call cfg (ListMovies skip limit) d = outcome (get_movies skip limit d)"
| "call cfg (CreateMovie now tok ttl descr) d =
     (case get_current_user cfg now tok d of
        Inl e \<Rightarrow> (Inl e, d)
      | Inr user \<Rightarrow> outcome (create_movie ttl descr user d))"
| "call cfg (GetMovie movie_id) d = outcome (get_movie movie_id d)"
| "call cfg (UpdateMovie now tok movie_id ttl descr) d =
     (case get_current_user cfg now tok d of
        Inl e \<Rightarrow> (Inl e, d)
      | Inr user \<Rightarrow> outcome (update_movie movie_id ttl descr user d))"
| "call cfg (DeleteMovie now tok movie_id) d =
     (case get_current_user cfg now tok d of
        Inl e \<Rightarrow> (Inl e, d)
      | Inr user \<Rightarrow> outcome (delete_movie movie_id user d))"

fun run_calls :: "config \<Rightarrow> request list \<Rightarrow> db \<Rightarrow> db" where
  "run_calls cfg [] d = d"
| "run_calls cfg (r # rs) d = run_calls cfg rs (snd (call cfg r d))"

text \<open>
  A request to a route of the application goes through \<^verbatim>\<open>db_session_middleware\<close>. Its
  first statement evaluates the name \<^verbatim>\<open>Response\<close>, which the module neither imports nor
  defines: it raises before the \<^verbatim>\<open>try\<close> block, and \<open>call_next\<close>, the handler, is not
  called. \<open>handle\<close> is the database after one request, \<open>run\<close> after a sequence of them.
\<close>

definition db_session_middleware ::
  "(db \<Rightarrow> (exn + 'a) \<times> db) \<Rightarrow> db \<Rightarrow> (exn + 'a) \<times> db" where
  "db_session_middleware call_next d = (Inl NameError, d)"

definition handle :: "config \<Rightarrow> request \<Rightarrow> db \<Rightarrow> db" where
  "handle cfg r d = snd (db_session_middleware (call cfg r) d)"

fun run :: "config \<Rightarrow> request list \<Rightarrow> db \<Rightarrow> db" where
  "run cfg [] d = d"
| "run cfg (r # rs) d = run cfg rs (handle cfg r d)"

section \<open>Predicates and example data of the properties\<close>

text \<open>
  \<open>signature_verifies cfg tok\<close>: the token parses and its signature is the MAC of its
  header and claims under the server's secret.
\<close>

fun signature_verifies :: "config \<Rightarrow> token \<Rightarrow> bool" where
  "signature_verifies cfg (Garbled s) = False"
| "signature_verifies cfg (Compact alg cl sg) = (sg = jws_sign cfg alg (SECRET_KEY cfg) cl)"

text \<open>
  The owner id stored for the movie with id \<open>i\<close>, if the movie is stored: read from the
  table itself, not through the session.
\<close>

definition owner_of :: "int \<Rightarrow> db \<Rightarrow> int option" where
  "owner_of i d = map_option user_id (find (\<lambda>m. mid m = i) (movies d))"

text \<open>
  A configuration, two users and a database with one movie, on which the properties
  below are evaluated. The example hasher refuses a password with a NUL character.
\<close>

definition example_config :: config where
  "example_config =
     \<lparr>SECRET_KEY = ''your_secret_key'',
      jws_sign = (\<lambda>alg key cl. alg @ key @ concat (map fst cl)),
      pwd_context =
        \<lparr>ctx_hash = (\<lambda>salt pw. if CHR 0x00 \<in> set pw then Inl PasswordValueError
                                else Inr (salt @ pw)),
         ctx_verify = (\<lambda>pw h. if CHR 0x00 \<in> set pw then Inl PasswordValueError
                                else Inr (drop (length h - length pw) h = pw))\<rparr>\<rparr>"

definition alice :: User where
  "alice = \<lparr>uid = 1, username = ''alice'', password = ''s1pw-a''\<rparr>"

definition bob :: User where
  "bob = \<lparr>uid = 2, username = ''bob'', password = ''s2pw-b''\<rparr>"

definition example_db :: db where
  "example_db = \<lparr>users = [alice, bob],
     movies = [\<lparr>mid = 1, title = ''Heat'', description = ''1995'', user_id = 1\<rparr>]\<rparr>"

definition empty_db :: db where
  "empty_db = \<lparr>users = [], movies = []\<rparr>"

text \<open>The token that \<open>create_access_token\<close> builds at time 1000 for the id of \<open>alice\<close>.\<close>

definition alice_token :: token where
  "alice_token = create_access_token example_config 1000 [(''user_id'', 1)] (Some 1800)"

text \<open>A catalog of fifteen movies, numbered in the order of their rows.\<close>

definition numbered_movie :: "int \<Rightarrow> Movie" where
  "numbered_movie i = \<lparr>mid = i, title = ''Film'', description = ''Plot'', user_id = 1\<rparr>"

definition catalog15 :: db where
  "catalog15 = \<lparr>users = [alice, bob],
     movies = map numbered_movie [1, 2, 3, 4, 5, 6, 7, 8, 9, 10, 11, 12, 13, 14, 15]\<rparr>"

section \<open>The mappers of the module do not configure\<close>

lemma declared_mappers_fail:
  "configure_mappers declared_relationships = Some MapperConfigurationError"
  by (simp add: configure_mappers_def declared_relationships_def
        self_referential_without_remote_side_def)

lemma mapped_raises: "mapped x = Inl MapperConfigurationError"
  by (simp add: mapped_def declared_mappers_fail)

lemma user_by_username_raises: "user_by_username name d = Inl MapperConfigurationError"
  by (simp add: user_by_username_def mapped_raises)

lemma user_get_raises: "user_get i d = Inl MapperConfigurationError"
  by (simp add: user_get_def mapped_raises)

lemma movie_get_raises: "movie_get i d = Inl MapperConfigurationError"
  by (simp add: movie_get_def mapped_raises)

lemma get_current_user_raises: "\<exists>e. get_current_user cfg now tok d = Inl e"
  by (simp add: get_current_user_def user_get_raises split: sum.splits option.splits jwt_error.splits)

lemma call_keeps_database: "snd (call cfg r d) = d"
proof (cases r)
  case (Register salt uname pw)
  then show ?thesis
    by (simp add: outcome_def register_user_def user_by_username_raises)
next
  case (Login now uname pw)
  then show ?thesis
    by (simp add: outcome_def login_for_access_token_def user_by_username_raises)
next
  case (ListMovies skip limit)
  then show ?thesis
    by (simp add: outcome_def get_movies_def mapped_raises Let_def)
next
  case (CreateMovie now tok ttl descr)
  then show ?thesis
    using get_current_user_raises [of cfg now tok d] by auto
next
  case (GetMovie movie_id)
  then show ?thesis
    by (simp add: outcome_def get_movie_def movie_get_raises)
next
  case (UpdateMovie now tok movie_id ttl descr)
  then show ?thesis
    using get_current_user_raises [of cfg now tok d] by auto
next
  case (DeleteMovie now tok movie_id)
  then show ?thesis
    using get_current_user_raises [of cfg now tok d] by auto
qed

lemma run_calls_keeps_database: "run_calls cfg rs d = d"
  by (induction rs arbitrary: d) (simp_all add: call_keeps_database)

lemma run_keeps_database: "run cfg rs d = d"
  by (induction rs arbitrary: d) (simp_all add: handle_def db_session_middleware_def)

lemma map_update_keeps_keys:
  "map mid (map (\<lambda>m. if mid m = j then m\<lparr>title := t, description := e\<rparr> else m) ms) = map mid ms"
  "map user_id (map (\<lambda>m. if mid m = j then m\<lparr>title := t, description := e\<rparr> else m) ms)
     = map user_id ms"
  by (induction ms) simp_all

lemmas example_simps =
  example_config_def example_db_def alice_def bob_def alice_token_def
  create_access_token_def jwt_encode_def ALGORITHM_def
  ACCESS_TOKEN_EXPIRE_MINUTES_def timedelta_minutes_def credentials_exception_def
  verify_password_def get_password_hash_def http_exception_def Let_def

section \<open>Ownership of movies\<close>

text \<open>
  Claim C1, on the module as written. The movie with id 1 is stored with the owner id of
  \<open>alice\<close>, and \<open>bob\<close> is another user. \<open>update_movie\<close> and \<open>delete_movie\<close> called by \<open>bob\<close>
  on that movie, and on the id 7 that no movie has, do not raise the \<open>HTTPException\<close>
  with status 404 of the claim: \<^verbatim>\<open>db.query(Movie)\<close> raises the mapper configuration error
  before the ownership check is reached. The database is left as it is.
\<close>

theorem update_delete_by_other_user_raise_mapper_error:
  "find (\<lambda>m. mid m = 1) (movies example_db)
     = Some \<lparr>mid = 1, title = ''Heat'', description = ''1995'', user_id = uid alice\<rparr>
   \<and> uid bob \<noteq> uid alice
   \<and> find (\<lambda>m. mid m = 7) (movies example_db) = None
   \<and> update_movie 1 ''Cold'' ''2020'' bob example_db = (Inl MapperConfigurationError, example_db)
   \<and> delete_movie 1 bob example_db = (Inl MapperConfigurationError, example_db)
   \<and> update_movie 7 ''Cold'' ''2020'' bob example_db = (Inl MapperConfigurationError, example_db)
   \<and> delete_movie 7 bob example_db = (Inl MapperConfigurationError, example_db)
   \<and> MapperConfigurationError \<noteq> http_exception 404 ''Movie not found or not authorized''"
  by (simp add: update_movie_def delete_movie_def movie_get_raises http_exception_def
        example_db_def alice_def bob_def)

text \<open>
  Claim C8. No sequence of operations changes the owner id stored for a movie: after
  every sequence of calls of the handlers, and after every sequence of requests to the
  routes, the \<open>user_id\<close> stored for the movie with id \<open>i\<close> is what it was before. And
  \<open>update_movie\<close>, whoever calls it and whatever it returns, leaves the \<open>id\<close> and the
  \<open>user_id\<close> of every stored movie as they were: what it writes is title and
  description.
\<close>

theorem movie_owner_fixed:
  "owner_of i (run_calls cfg rs d) = owner_of i d
   \<and> owner_of i (run cfg rs d) = owner_of i d
   \<and> map mid (movies (snd (update_movie j ttl descr user d))) = map mid (movies d)
   \<and> map user_id (movies (snd (update_movie j ttl descr user d))) = map user_id (movies d)"
proof -
  have a: "owner_of i (run_calls cfg rs d) = owner_of i d"
    by (simp add: run_calls_keeps_database)
  have b: "owner_of i (run cfg rs d) = owner_of i d"
    by (simp add: run_keeps_database)
  have c: "map mid (movies (snd (update_movie j ttl descr user d))) = map mid (movies d)"
    by (simp add: update_movie_def map_update_keeps_keys Let_def
          split: sum.splits option.splits)
  have e: "map user_id (movies (snd (update_movie j ttl descr user d))) = map user_id (movies d)"
    by (simp add: update_movie_def map_update_keeps_keys Let_def
          split: sum.splits option.splits)
  from a b c e show ?thesis by blast
qed

section \<open>Creating and reading a movie\<close>

text \<open>
  Claim C6, on the module as written. \<open>create_movie\<close> called by \<open>alice\<close> with title
  \<^verbatim>\<open>X\<close> and description \<^verbatim>\<open>Y\<close> does not store a movie and returns no id to read back:
  \<^verbatim>\<open>Movie(...)\<close> raises the mapper configuration error. \<open>get_movie\<close> raises it as well, for
  the id of a stored movie too.
\<close>

theorem create_movie_raises_mapper_error:
  "create_movie ''X'' ''Y'' alice example_db = (Inl MapperConfigurationError, example_db)
   \<and> get_movie 1 example_db = (Inl MapperConfigurationError, example_db)
   \<and> get_movie 2 example_db = (Inl MapperConfigurationError, example_db)"
  by (simp add: create_movie_def get_movie_def movie_get_raises mapped_raises)

section \<open>Listing movies\<close>

text \<open>
  Claim C7, on the module as written. On the catalog of 15 movies \<open>get_movies\<close> returns
  no list, neither for \<open>skip = 0, limit = 10\<close> nor for \<open>skip = 10, limit = 10\<close> nor for
  the defaults: \<^verbatim>\<open>db.query(Movie)\<close> raises the mapper configuration error.
\<close>

theorem get_movies_raises_mapper_error:
  "length (movies catalog15) = 15
   \<and> get_movies (Some 0) (Some 10) catalog15 = (Inl MapperConfigurationError, catalog15)
   \<and> get_movies (Some 10) (Some 10) catalog15 = (Inl MapperConfigurationError, catalog15)
   \<and> get_movies None None catalog15 = (Inl MapperConfigurationError, catalog15)"
  by (simp add: get_movies_def mapped_raises catalog15_def)

section \<open>Login\<close>

text \<open>
  Claim C10. \<open>login_for_access_token\<close> leaves the database as it is, for every username
  and password, whether it returns a token or raises.
\<close>

theorem login_keeps_database:
  "snd (login_for_access_token cfg now uname pw d) = d"
  by (simp add: login_for_access_token_def Let_def split: option.splits sum.splits)

text \<open>
  Claim C4, on the module as written. No user is named \<^verbatim>\<open>carol\<close>; \<open>alice\<close> is stored
  and \<^verbatim>\<open>guess\<close> is not her password. Both logins raise the same error, but it is not the
  \<open>HTTPException\<close> with status 401 of the claim: \<^verbatim>\<open>db.query(User)\<close> raises the mapper
  configuration error before either check is reached.
\<close>

theorem failing_logins_raise_mapper_error:
  "find (\<lambda>u. username u = ''carol'') (users example_db) = None
   \<and> find (\<lambda>u. username u = ''alice'') (users example_db) = Some alice
   \<and> verify_password (pwd_context example_config) ''guess'' (password alice) = Inr False
   \<and> login_for_access_token example_config 1000 ''carol'' ''guess'' example_db
       = (Inl MapperConfigurationError, example_db)
   \<and> login_for_access_token example_config 1000 ''alice'' ''guess'' example_db
       = (Inl MapperConfigurationError, example_db)
   \<and> MapperConfigurationError \<noteq> http_exception 401 ''Invalid credentials''"
  by (simp add: login_for_access_token_def user_by_username_raises example_simps)

section \<open>Registration\<close>

text \<open>
  Claim C5, on the module as written. No user is named \<^verbatim>\<open>carol\<close>, and the first
  \<open>register_user\<close> for that name already fails: \<^verbatim>\<open>db.query(User)\<close> raises the mapper
  configuration error and no user is stored. A second call does the same; it is not the
  \<open>HTTPException\<close> with status 400 of the claim.
\<close>

theorem register_raises_mapper_error:
  "find (\<lambda>u. username u = ''carol'') (users example_db) = None
   \<and> register_user example_config ''s3'' ''carol'' ''pw-c'' example_db
       = (Inl MapperConfigurationError, example_db)
   \<and> register_user example_config ''s4'' ''carol'' ''other'' example_db
       = (Inl MapperConfigurationError, example_db)
   \<and> MapperConfigurationError \<noteq> http_exception 400 ''Username already taken''"
  by (simp add: register_user_def user_by_username_raises example_simps)

text \<open>
  Claim C9, on the module as written. With no user stored at all, \<open>register_user\<close> for
  the empty username and the empty password does not succeed and stores no user:
  \<^verbatim>\<open>db.query(User)\<close> raises the mapper configuration error.
\<close>

theorem register_empty_strings_raises_mapper_error:
  "users empty_db = []
   \<and> register_user example_config ''s1'' [] [] empty_db
       = (Inl MapperConfigurationError, empty_db)"
  by (simp add: register_user_def user_by_username_raises empty_db_def)

section \<open>Tokens\<close>

text \<open>
  Claim C2, on the module as written. \<open>alice\<close> is stored and \<^verbatim>\<open>pw-a\<close> is her password,
  but her login at time 1000 issues no token: \<^verbatim>\<open>db.query(User)\<close> raises the mapper
  configuration error. The token that \<open>create_access_token\<close> builds at time 1000 for her
  id with the lifetime of 30 minutes is signed with the server's secret and decodes at
  time 1500, before its expiry, yet \<open>get_current_user\<close> does not accept it:
  \<^verbatim>\<open>db.query(User).get(user_id)\<close> raises the same error.
\<close>

theorem login_and_guard_raise_mapper_error:
  "find (\<lambda>u. username u = ''alice'') (users example_db) = Some alice
   \<and> verify_password (pwd_context example_config) ''pw-a'' (password alice) = Inr True
   \<and> login_for_access_token example_config 1000 ''alice'' ''pw-a'' example_db
       = (Inl MapperConfigurationError, example_db)
   \<and> alice_token = create_access_token example_config 1000 [(''user_id'', uid alice)]
        (Some (timedelta_minutes ACCESS_TOKEN_EXPIRE_MINUTES))
   \<and> jwt_decode (jws_sign example_config) 1500 alice_token (SECRET_KEY example_config) [ALGORITHM]
       = Inr [(''user_id'', 1), (''exp'', 2800)]
   \<and> get_current_user example_config 1500 alice_token example_db
       = Inl MapperConfigurationError"
  by (simp add: login_for_access_token_def get_current_user_def user_by_username_raises
        user_get_raises example_simps)

text \<open>
  Claim C3. A token whose signature does not verify under the server's secret is rejected
  by \<open>get_current_user\<close> with \<open>credentials_exception\<close>, whose status is 401, at every
  time, on every database, whatever its claims say; in particular an issued token whose
  signature has been replaced by a different one.
\<close>

theorem unverified_token_rejected:
  "(\<not> signature_verifies cfg tok \<longrightarrow>
      get_current_user cfg now tok d = Inl credentials_exception)
   \<and> (sg \<noteq> tok_sig (create_access_token cfg T data delta) \<longrightarrow>
      get_current_user cfg now
        (Compact (tok_alg (create_access_token cfg T data delta))
                 (tok_claims (create_access_token cfg T data delta)) sg) d
        = Inl credentials_exception)
   \<and> status_code credentials_exception = 401"
proof -
  have a: "\<not> signature_verifies cfg tok \<longrightarrow>
      get_current_user cfg now tok d = Inl credentials_exception"
    by (cases tok) (simp_all add: get_current_user_def)
  have b: "sg \<noteq> tok_sig (create_access_token cfg T data delta) \<longrightarrow>
      get_current_user cfg now
        (Compact (tok_alg (create_access_token cfg T data delta))
                 (tok_claims (create_access_token cfg T data delta)) sg) d
        = Inl credentials_exception"
    by (simp add: get_current_user_def create_access_token_def jwt_encode_def Let_def)
  have c: "status_code credentials_exception = 401"
    by (simp add: credentials_exception_def)
  from a b c show ?thesis by blast
qed

theorem unverified_token_rejected_witness:
  "\<not> signature_verifies example_config (Compact ''HS256'' [(''user_id'', 1), (''exp'', 2800)] ''forged'')
   \<and> get_current_user example_config 1500
        (Compact ''HS256'' [(''user_id'', 1), (''exp'', 2800)] ''forged'') example_db
       = Inl credentials_exception
   \<and> alice_token = Compact ''HS256'' [(''user_id'', 1), (''exp'', 2800)]
        ''HS256your_secret_keyuser_idexp''
   \<and> signature_verifies example_config alice_token"
proof -
  have h: "\<not> signature_verifies example_config
      (Compact ''HS256'' [(''user_id'', 1), (''exp'', 2800)] ''forged'')"
    by (simp add: example_config_def)
  note t = unverified_token_rejected
    [of example_config "Compact ''HS256'' [(''user_id'', 1), (''exp'', 2800)] ''forged''"
        1500 example_db, THEN conjunct1, rule_format, OF h]
  have a: "alice_token = Compact ''HS256'' [(''user_id'', 1), (''exp'', 2800)]
        ''HS256your_secret_keyuser_idexp''"
    by (simp add: example_simps)
  have b: "signature_verifies example_config alice_token"
    by (simp add: a) (simp add: example_config_def)
  from h t a b show ?thesis by simp
qed

end
